theory Spec2Isabelle
  imports Main
begin

section \<open>The Funtico session adapter (src/funtico-sdk.ts)\<close>

text \<open>
  The adapter \<open>FunticoManager\<close> wraps a vendor SDK object loaded into a browser page.
  Its own state is three private fields: the vendor handle \<open>sdk\<close>, the flag
  \<open>isInitialized\<close> and the cached identity \<open>userInfo\<close>. Everything else it touches
  belongs to the page (the address, the history, \<open>alert\<close>) or to the vendor.

  The embedding is shallow. JavaScript values of type \<open>any\<close> are a datatype; an
  awaited vendor call is one of three outcomes (it resolves, it rejects, it never
  settles); a \<open>throw\<close> is a value of the completion type, so every \<open>try\<close>/\<open>catch\<close>
  of the source is a case distinction of the model; the fields and the page are a
  record that each operation returns updated. Strings are byte strings (UTF-8).
  Console output is not part of the model. Of the page's own primitives, reading the
  address, \<open>alert\<close> and assigning \<open>location.href\<close> complete normally, and
  \<open>history.replaceState\<close> throws when the browser refuses the new address. An
  operation runs from its call to its completion without another operation of the
  adapter starting in between.
\<close>

subsection \<open>JavaScript values\<close>

text \<open>
  Numbers are integers here (\<open>user_id\<close>, the score); the adapter does no arithmetic
  on them. An object is the list of its properties.
\<close>

datatype jsval =
    JUndefined
  | JNull
  | JBool bool
  | JNum int
  | JStr string
  | JArr "jsval list"
  | JObj "(string \<times> jsval) list"

text \<open>How a statement or a call ends: with a value, with a thrown value, or never.\<close>

datatype 'a completion = Normal 'a | Throw jsval | Hang

text \<open>ToBoolean, as \<open>if (x)\<close>, \<open>x && y\<close> and \<open>x || y\<close> apply it.\<close>

fun truthy :: "jsval \<Rightarrow> bool" where
  "truthy JUndefined = False"
| "truthy JNull = False"
| "truthy (JBool b) = b"
| "truthy (JNum n) = (n \<noteq> 0)"
| "truthy (JStr s) = (s \<noteq> [])"
| "truthy (JArr xs) = True"
| "truthy (JObj ps) = True"

definition TypeError :: "string \<Rightarrow> jsval" where
  "TypeError msg = JObj [(''name'', JStr ''TypeError''), (''message'', JStr msg)]"

text \<open>
  Member access \<open>v.p\<close> for the data properties the adapter reads (\<open>username\<close>,
  \<open>user_id\<close>, \<open>message\<close>, \<open>name\<close>, \<open>status\<close>): it throws on \<open>undefined\<close> and
  \<open>null\<close>, and no primitive and no array carries one of these names.
\<close>

fun member_of :: "jsval \<Rightarrow> string \<Rightarrow> jsval completion" where
  "member_of JUndefined p = Throw (TypeError (''Cannot read properties of undefined (reading '' @ p @ '')''))"
| "member_of JNull p = Throw (TypeError (''Cannot read properties of null (reading '' @ p @ '')''))"
| "member_of (JObj ps) p = Normal (case map_of ps p of Some x \<Rightarrow> x | None \<Rightarrow> JUndefined)"
| "member_of v p = Normal JUndefined"

text \<open>Optional chaining \<open>v?.p\<close>.\<close>

fun opt_member :: "jsval \<Rightarrow> string \<Rightarrow> jsval" where
  "opt_member (JObj ps) p = (case map_of ps p of Some x \<Rightarrow> x | None \<Rightarrow> JUndefined)"
| "opt_member v p = JUndefined"

text \<open>\<open>String.prototype.includes\<close>: is \<open>n\<close> a contiguous part of \<open>s\<close>?\<close>

fun str_includes :: "string \<Rightarrow> string \<Rightarrow> bool" where
  "str_includes [] n = (n = [])"
| "str_includes (c # s) n = (take (length n) (c # s) = n \<or> str_includes s n)"

text \<open>
  The call \<open>m.includes(x)\<close> on a value of unknown type: strings and arrays have the
  method, anything else has not and the call throws.
\<close>

fun call_includes :: "jsval \<Rightarrow> string \<Rightarrow> bool completion" where
  "call_includes (JStr s) x = Normal (str_includes s x)"
| "call_includes (JArr xs) x = Normal (JStr x \<in> set xs)"
| "call_includes JUndefined x = Throw (TypeError ''Cannot read properties of undefined (reading includes)'')"
| "call_includes JNull x = Throw (TypeError ''Cannot read properties of null (reading includes)'')"
| "call_includes v x = Throw (TypeError ''includes is not a function'')"

subsection \<open>Platform functions on strings\<close>

definition hexdigits :: string where
  "hexdigits = ''0123456789ABCDEF''"

definition uri_unreserved :: "char \<Rightarrow> bool" where
  "uri_unreserved c =
     (c \<in> set ''ABCDEFGHIJKLMNOPQRSTUVWXYZabcdefghijklmnopqrstuvwxyz0123456789-_.!~*()''
      \<or> c = CHR 0x27)"

text \<open>\<open>encodeURIComponent\<close> on a well-formed string: every byte outside the unreserved set is escaped.\<close>

fun encodeURIComponent :: "string \<Rightarrow> string" where
  "encodeURIComponent [] = []"
| "encodeURIComponent (c # s) =
     (if uri_unreserved c then [c]
      else [CHR ''%'', hexdigits ! (of_char c div 16), hexdigits ! (of_char c mod 16)])
     @ encodeURIComponent s"

definition hexval :: "char \<Rightarrow> nat option" where
  "hexval c =
     (let n = (of_char c :: nat) in
      if 48 \<le> n \<and> n \<le> 57 then Some (n - 48)
      else if 65 \<le> n \<and> n \<le> 70 then Some (n - 55)
      else if 97 \<le> n \<and> n \<le> 102 then Some (n - 87)
      else None)"

text \<open>
  Percent-decoding of the URL standard: an escape that is not two hex digits stays as
  it is.
\<close>

fun percent_decode :: "string \<Rightarrow> string" where
  "percent_decode (c # h # l # s) =
     (if c = CHR ''%'' then
        (case (hexval h, hexval l) of
           (Some a, Some b) \<Rightarrow> char_of (16 * a + b) # percent_decode s
         | _ \<Rightarrow> c # percent_decode (h # l # s))
      else c # percent_decode (h # l # s))"
| "percent_decode s = s"

text \<open>\<open>split_on d s\<close>: the pieces of \<open>s\<close> between the occurrences of \<open>d\<close>.\<close>

fun split_on :: "char \<Rightarrow> string \<Rightarrow> string list" where
  "split_on d [] = [[]]"
| "split_on d (c # s) =
     (if c = d then [] # split_on d s
      else (case split_on d s of p # ps \<Rightarrow> (c # p) # ps | [] \<Rightarrow> [[c]]))"

text \<open>
  The decoded bytes are read as UTF-8, as the Encoding standard decodes it: a byte
  that cannot start a sequence, and a sequence cut short by a byte that cannot go on
  with it or by the end, each become U+FFFD (the bytes EF BF BD); the byte that cut
  a sequence short is then read again as a first byte.
\<close>

datatype utf8_lead = Single | Lead nat nat nat | Bad

text \<open>A first byte: how many bytes must follow, and the range of the next one.\<close>

definition utf8_first :: "nat \<Rightarrow> utf8_lead" where
  "utf8_first b =
     (if b \<le> 0x7F then Single
      else if 0xC2 \<le> b \<and> b \<le> 0xDF then Lead 1 0x80 0xBF
      else if b = 0xE0 then Lead 2 0xA0 0xBF
      else if b = 0xED then Lead 2 0x80 0x9F
      else if 0xE1 \<le> b \<and> b \<le> 0xEF then Lead 2 0x80 0xBF
      else if b = 0xF0 then Lead 3 0x90 0xBF
      else if b = 0xF4 then Lead 3 0x80 0x8F
      else if 0xF1 \<le> b \<and> b \<le> 0xF3 then Lead 3 0x80 0xBF
      else Bad)"

definition replacement :: string where
  "replacement = [CHR 0xEF, CHR 0xBF, CHR 0xBD]"

text \<open>
  \<open>utf8_decode needed lo hi seen s\<close>: \<open>needed\<close> more bytes are due for the sequence
  begun with \<open>seen\<close>, the next of them between \<open>lo\<close> and \<open>hi\<close>.
\<close>

fun utf8_decode :: "nat \<Rightarrow> nat \<Rightarrow> nat \<Rightarrow> string \<Rightarrow> string \<Rightarrow> string" where
  "utf8_decode needed lo hi seen [] = (if needed = 0 then [] else replacement)"
| "utf8_decode needed lo hi seen (c # s) =
     (if needed \<noteq> 0 \<and> lo \<le> of_char c \<and> of_char c \<le> hi then
        (if needed = 1 then seen @ [c] @ utf8_decode 0 0x80 0xBF [] s
         else utf8_decode (needed - 1) 0x80 0xBF (seen @ [c]) s)
      else
        (if needed = 0 then [] else replacement)
        @ (case utf8_first (of_char c) of
             Single \<Rightarrow> c # utf8_decode 0 0x80 0xBF [] s
           | Lead n l h \<Rightarrow> utf8_decode n l h [c] s
           | Bad \<Rightarrow> replacement @ utf8_decode 0 0x80 0xBF [] s))"

definition form_decode :: "string \<Rightarrow> string" where
  "form_decode s =
     utf8_decode 0 0x80 0xBF []
       (percent_decode (map (\<lambda>c. if c = CHR ''+'' then CHR '' '' else c) s))"

text \<open>
  \<open>new URLSearchParams(search)\<close>: one leading question mark is dropped, the rest is
  split at ampersands, empty pieces are skipped, each piece is split at its first
  equals sign, and names and values are decoded.
\<close>

definition URLSearchParams :: "string \<Rightarrow> (string \<times> string) list" where
  "URLSearchParams search =
     map (\<lambda>piece. (form_decode (takeWhile (\<lambda>c. c \<noteq> CHR ''='') piece),
                   form_decode (drop 1 (dropWhile (\<lambda>c. c \<noteq> CHR ''='') piece))))
       (filter (\<lambda>piece. piece \<noteq> [])
          (split_on (CHR ''&'') (if take 1 search = ''?'' then drop 1 search else search)))"

text \<open>\<open>params.get(name)\<close>: the first value under the name, or \<open>null\<close> (here \<open>None\<close>).\<close>

definition params_get :: "(string \<times> string) list \<Rightarrow> string \<Rightarrow> string option" where
  "params_get params name = map_of params name"

subsection \<open>The vendor SDK and the host page\<close>

text \<open>The options object the adapter passes to \<open>new FunticoSDK(...)\<close>.\<close>

record sdk_config =
  authClientId :: string
  env :: string
  autoLogin :: bool

text \<open>
  The private field \<open>sdk\<close>: declared without an initialiser (so \<open>undefined\<close> until
  assigned), compared with \<open>null\<close> by \<open>isReady\<close>, and assigned the constructed
  vendor object.
\<close>

datatype sdk_ref = SdkUndefined | SdkNull | SdkObject sdk_config

text \<open>What awaiting a vendor method gives: a value, a rejection (or a throw), or nothing, ever.\<close>

datatype outcome = Resolves jsval | Rejects jsval | Pending

text \<open>
  The vendor's behaviour during one operation of the adapter. No operation calls the
  same vendor method twice, so one outcome for each method (and argument) describes it.
\<close>

record vendor =
  v_getUserInfo :: outcome
  v_signInWithFuntico :: "string \<Rightarrow> outcome"
  v_saveScore :: "int \<Rightarrow> outcome"
  v_getLeaderboard :: outcome
  v_signOut :: "string \<Rightarrow> outcome"
  v_exchangeCodeForToken :: "string \<Rightarrow> outcome"

text \<open>The vendor methods invoked, as the log \<open>calls\<close> records them.\<close>

datatype vcall =
    CallGetUserInfo
  | CallSignInWithFuntico string
  | CallSaveScore int
  | CallGetLeaderboard
  | CallSignOut string
  | CallExchangeCodeForToken string

text \<open>
  \<open>window.location\<close> of an http(s) page, by the properties the adapter reads, as the
  browser serialises them.

  A pathname that begins with two slashes is, handed to \<open>history.replaceState\<close>, a
  scheme-relative reference: what follows the slashes names a host. The field
  \<open>scheme_relative\<close> is what the browser makes of such a pathname against the page's
  address: \<open>None\<close> when it names another origin, \<open>Some p\<close> when it names the page's
  own origin, with the path \<open>p\<close>. No other pathname consults it.
\<close>

record location =
  hostname :: string
  origin :: string
  pathname :: string
  search :: string
  hash :: string
  href :: string
  scheme_relative :: "string option"

text \<open>
  The adapter's three fields, the page, and what an observer sees of the operations:
  the address last assigned to \<open>location.href\<close>, the notices shown by \<open>alert\<close>, and the
  vendor methods invoked.
\<close>

record world =
  sdk :: sdk_ref
  isInitialized :: bool
  userInfo :: jsval
  loc :: location
  navigated :: "string option"
  alerts :: "string list"
  calls :: "vcall list"

definition settle :: "outcome \<Rightarrow> jsval completion" where
  "settle out = (case out of Resolves x \<Rightarrow> Normal x | Rejects e \<Rightarrow> Throw e | Pending \<Rightarrow> Hang)"

text \<open>
  \<open>await this.sdk.method(args)\<close>: reading a method of \<open>undefined\<close> or \<open>null\<close> throws
  before anything is invoked; on an object the method is invoked and awaited.
\<close>

definition await_sdk :: "vcall \<Rightarrow> outcome \<Rightarrow> world \<Rightarrow> jsval completion \<times> world" where
  "await_sdk c out w =
     (case sdk w of
        SdkObject config \<Rightarrow> (settle out, w\<lparr>calls := calls w @ [c]\<rparr>)
      | SdkUndefined \<Rightarrow> (Throw (TypeError ''Cannot read properties of undefined''), w)
      | SdkNull \<Rightarrow> (Throw (TypeError ''Cannot read properties of null''), w))"

subsection \<open>Construction and readiness\<close>

text \<open>
  \<open>FunticoSDK config\<close> is \<open>None\<close> when \<open>new window.FunticoSDK(config)\<close> constructs the
  object and \<open>Some e\<close> when it throws \<open>e\<close> (also when the page has no such constructor).
\<close>

definition initializeSDK :: "(sdk_config \<Rightarrow> jsval option) \<Rightarrow> world \<Rightarrow> world" where
  "initializeSDK FunticoSDK w =
     (let isFunticoHosted = str_includes (hostname (loc w)) ''funtico.com'';
          isProduction = (str_includes (hostname (loc w)) ''vercel.app'' \<or> isFunticoHosted);
          config = \<lparr>authClientId = ''gl-avalanche-knight'',
                    env = (if isProduction then ''production'' else ''sandbox''),
                    autoLogin = isFunticoHosted\<rparr>
      in case FunticoSDK config of
           None \<Rightarrow> w\<lparr>sdk := SdkObject config, isInitialized := True\<rparr>
         | Some error \<Rightarrow> w\<lparr>isInitialized := False\<rparr>)"

text \<open>The constructor: the field initialisers, then \<open>initializeSDK\<close>.\<close>

definition FunticoManager :: "(sdk_config \<Rightarrow> jsval option) \<Rightarrow> location \<Rightarrow> world" where
  "FunticoManager FunticoSDK l =
     initializeSDK FunticoSDK
       \<lparr>sdk = SdkUndefined, isInitialized = False, userInfo = JNull, loc = l,
        navigated = None, alerts = [], calls = []\<rparr>"

definition isReady :: "world \<Rightarrow> bool" where
  "isReady w = (isInitialized w \<and> sdk w \<noteq> SdkNull)"

subsection \<open>signIn\<close>

text \<open>
  The block entered on a Funtico host. \<open>Some b\<close> is \<open>return b\<close>; \<open>None\<close> is falling
  out of the block, with whatever \<open>getUserInfo\<close> gave already stored in \<open>userInfo\<close>.
\<close>

definition signIn_session :: "vendor \<Rightarrow> world \<Rightarrow> bool option completion \<times> world" where
  "signIn_session v w =
     (case await_sdk CallGetUserInfo (v_getUserInfo v) w of
        (Normal u, w1) \<Rightarrow>
          (if truthy u then (Normal (Some True), w1\<lparr>userInfo := u\<rparr>)
           else (Normal None, w1\<lparr>userInfo := u\<rparr>))
      | (Throw error, w1) \<Rightarrow> (Normal None, w1)
      | (Hang, w1) \<Rightarrow> (Hang, w1))"

definition loginUrl :: "string \<Rightarrow> string" where
  "loginUrl callbackUrl =
     ''https://auth.funtico.com/oauth2/auth?client_id=gl-avalanche-knight&redirect_uri=''
     @ encodeURIComponent callbackUrl @ ''&response_type=code&scope=openid+profile+email''"

text \<open>
  The body of the outer \<open>try\<close>. \<open>Object.keys(this.sdk)\<close> throws on \<open>undefined\<close> and
  \<open>null\<close>. The inner \<open>try\<close> catches whatever \<open>signInWithFuntico\<close> throws, assigns the
  login address to \<open>location.href\<close> and returns true.
\<close>

definition signIn_attempt :: "vendor \<Rightarrow> world \<Rightarrow> bool completion \<times> world" where
  "signIn_attempt v w =
     (let baseUrl = origin (loc w);
          callbackUrl = baseUrl @ ''/''
      in case sdk w of
           SdkObject config \<Rightarrow>
             (case await_sdk (CallSignInWithFuntico callbackUrl) (v_signInWithFuntico v callbackUrl) w of
                (Normal r, w1) \<Rightarrow> (Normal True, w1)
              | (Throw signInError, w1) \<Rightarrow> (Normal True, w1\<lparr>navigated := Some (loginUrl callbackUrl)\<rparr>)
              | (Hang, w1) \<Rightarrow> (Hang, w1))
         | SdkUndefined \<Rightarrow> (Throw (TypeError ''Cannot convert undefined or null to object''), w)
         | SdkNull \<Rightarrow> (Throw (TypeError ''Cannot convert undefined or null to object''), w))"

definition demo_identity :: jsval where
  "demo_identity =
     JObj [(''username'', JStr ''demo_player''), (''user_id'', JNum 99999),
           (''email'', JStr ''demo@avalanche-knight.com'')]"

definition demo_notice :: string where
  "demo_notice =
     ''DEMO MODE: Mock login successful!'' @ [CHR 0x0A, CHR 0x0A] @ ''Username: demo_player''
     @ [CHR 0x0A, CHR 0x0A] @ ''Note: Contact Funtico support to enable real login:''
     @ [CHR 0x0A] @ ''gameloop@funtico.com''"

text \<open>
  The handler of the outer \<open>try\<close>:
  \<open>if (error.message && error.message.includes('redirect_uri')) {...; return true}
  return false\<close>. Reading \<open>message\<close> of \<open>undefined\<close> or \<open>null\<close> throws, and so does
  calling \<open>includes\<close> on a value that has none.
\<close>

definition signIn_catch :: "jsval \<Rightarrow> world \<Rightarrow> bool completion \<times> world" where
  "signIn_catch error w =
     (case member_of error ''message'' of
        Normal m \<Rightarrow>
          (if truthy m then
             (case call_includes m ''redirect_uri'' of
                Normal b \<Rightarrow>
                  (if b then (Normal True, w\<lparr>userInfo := demo_identity, alerts := alerts w @ [demo_notice]\<rparr>)
                   else (Normal False, w))
              | Throw e \<Rightarrow> (Throw e, w)
              | Hang \<Rightarrow> (Hang, w))
           else (Normal False, w))
      | Throw e \<Rightarrow> (Throw e, w)
      | Hang \<Rightarrow> (Hang, w))"

definition signIn :: "vendor \<Rightarrow> world \<Rightarrow> bool completion \<times> world" where
  "signIn v w =
     (if \<not> isReady w then (Normal False, w)
      else
        (case (if str_includes (hostname (loc w)) ''funtico.com'' then signIn_session v w
               else (Normal None, w)) of
           (Normal (Some b), w1) \<Rightarrow> (Normal b, w1)
         | (Normal None, w1) \<Rightarrow>
             (case signIn_attempt v w1 of
                (Throw error, w2) \<Rightarrow> signIn_catch error w2
              | (Normal b, w2) \<Rightarrow> (Normal b, w2)
              | (Hang, w2) \<Rightarrow> (Hang, w2))
         | (Throw e, w1) \<Rightarrow> (Throw e, w1)
         | (Hang, w1) \<Rightarrow> (Hang, w1)))"

subsection \<open>getUserInfo, saveScore, getLeaderboard, signOut\<close>

text \<open>\<open>typeof error === 'object' && error !== null && 'name' in error && 'status' in error\<close>.\<close>

definition isSDKError :: "jsval \<Rightarrow> bool" where
  "isSDKError error =
     (case error of
        JObj ps \<Rightarrow> map_of ps ''name'' \<noteq> None \<and> map_of ps ''status'' \<noteq> None
      | _ \<Rightarrow> False)"

text \<open>
  The handler of \<open>getUserInfo\<close>: the classification changes what is logged, and every
  path through it returns \<open>null\<close>.
\<close>

definition getUserInfo_catch :: "jsval \<Rightarrow> jsval" where
  "getUserInfo_catch error =
     (if isSDKError error then
        (if opt_member error ''name'' = JStr ''auth_error'' then JNull
         else if opt_member error ''name'' = JStr ''internal_server_error'' then JNull
         else JNull)
      else JNull)"

definition getUserInfo :: "vendor \<Rightarrow> world \<Rightarrow> jsval completion \<times> world" where
  "getUserInfo v w =
     (if \<not> isReady w then (Normal JNull, w)
      else if truthy (userInfo w) then (Normal (userInfo w), w)
      else
        (case await_sdk CallGetUserInfo (v_getUserInfo v) w of
           (Normal u, w1) \<Rightarrow> (Normal u, w1\<lparr>userInfo := u\<rparr>)
         | (Throw error, w1) \<Rightarrow> (Normal (getUserInfo_catch error), w1)
         | (Hang, w1) \<Rightarrow> (Hang, w1)))"

definition saveScore :: "vendor \<Rightarrow> int \<Rightarrow> world \<Rightarrow> bool completion \<times> world" where
  "saveScore v score w =
     (if \<not> isReady w then (Normal False, w)
      else
        (case await_sdk (CallSaveScore score) (v_saveScore v score) w of
           (Normal r, w1) \<Rightarrow> (Normal True, w1)
         | (Throw error, w1) \<Rightarrow> (Normal True, w1)
         | (Hang, w1) \<Rightarrow> (Hang, w1)))"

definition getLeaderboard :: "vendor \<Rightarrow> world \<Rightarrow> jsval completion \<times> world" where
  "getLeaderboard v w =
     (if \<not> isReady w then (Normal (JArr []), w)
      else
        (case await_sdk CallGetLeaderboard (v_getLeaderboard v) w of
           (Normal leaderboard, w1) \<Rightarrow> (Normal leaderboard, w1)
         | (Throw error, w1) \<Rightarrow> (Normal (JArr []), w1)
         | (Hang, w1) \<Rightarrow> (Hang, w1)))"

definition signOut :: "vendor \<Rightarrow> world \<Rightarrow> bool completion \<times> world" where
  "signOut v w =
     (if \<not> isReady w then (Normal False, w)
      else
        (case await_sdk (CallSignOut (href (loc w))) (v_signOut v (href (loc w))) w of
           (Normal r, w1) \<Rightarrow> (Normal True, w1\<lparr>userInfo := JNull\<rparr>)
         | (Throw error, w1) \<Rightarrow> (Normal False, w1)
         | (Hang, w1) \<Rightarrow> (Hang, w1)))"

subsection \<open>handleCallback and the accessors\<close>

text \<open>
  \<open>history.replaceState({}, document.title, window.location.pathname)\<close>. A path with
  one leading slash stays on the page's origin: the address keeps origin and path and
  loses query string and fragment. A path with two leading slashes names a host: the
  browser throws a \<open>SecurityError\<close> and leaves the address alone when that is another
  origin, and takes the path behind the host otherwise.
\<close>

definition SecurityError :: jsval where
  "SecurityError =
     JObj [(''name'', JStr ''SecurityError''),
           (''message'', JStr ''The URL cannot be used in a document of another origin'')]"

definition replaceState_accepts :: "location \<Rightarrow> bool" where
  "replaceState_accepts l =
     (if take 2 (pathname l) = ''//'' then scheme_relative l \<noteq> None else True)"

definition replaceState_pathname :: "world \<Rightarrow> jsval completion \<times> world" where
  "replaceState_pathname w =
     (if take 2 (pathname (loc w)) = ''//'' then
        (case scheme_relative (loc w) of
           None \<Rightarrow> (Throw SecurityError, w)
         | Some p \<Rightarrow>
             (Normal JUndefined,
              w\<lparr>loc := (loc w)\<lparr>pathname := p, search := [], hash := [],
                                href := origin (loc w) @ p\<rparr>\<rparr>))
      else
        (Normal JUndefined,
         w\<lparr>loc := (loc w)\<lparr>search := [], hash := [],
                           href := origin (loc w) @ pathname (loc w)\<rparr>\<rparr>))"

text \<open>\<open>if (x)\<close> on the result of \<open>params.get\<close>: \<open>null\<close> and the empty string are falsy.\<close>

definition truthy_param :: "string option \<Rightarrow> bool" where
  "truthy_param x = (case x of None \<Rightarrow> False | Some s \<Rightarrow> s \<noteq> [])"

text \<open>The \<open>try\<close> block entered with an authorization code, and its handler.\<close>

definition handleCallback_exchange :: "vendor \<Rightarrow> string \<Rightarrow> world \<Rightarrow> bool completion \<times> world" where
  "handleCallback_exchange v code w =
     (case await_sdk (CallExchangeCodeForToken code) (v_exchangeCodeForToken v code) w of
        (Normal tokenResponse, w1) \<Rightarrow>
          (case await_sdk CallGetUserInfo (v_getUserInfo v) w1 of
             (Normal u, w2) \<Rightarrow>
               (case replaceState_pathname (w2\<lparr>userInfo := u\<rparr>) of
                  (Normal r, w3) \<Rightarrow> (Normal True, w3)
                | (Throw e, w3) \<Rightarrow> (Normal False, w3)
                | (Hang, w3) \<Rightarrow> (Hang, w3))
           | (Throw e, w2) \<Rightarrow> (Normal False, w2)
           | (Hang, w2) \<Rightarrow> (Hang, w2))
      | (Throw e, w1) \<Rightarrow> (Normal False, w1)
      | (Hang, w1) \<Rightarrow> (Hang, w1))"

definition handleCallback :: "vendor \<Rightarrow> world \<Rightarrow> bool completion \<times> world" where
  "handleCallback v w =
     (let urlParams = URLSearchParams (search (loc w));
          code = params_get urlParams ''code'';
          error = params_get urlParams ''error''
      in if truthy_param error then (Normal False, w)
         else
           (case code of
              None \<Rightarrow> (Normal False, w)
            | Some c \<Rightarrow> (if c = [] then (Normal False, w) else handleCallback_exchange v c w)))"

definition isAuthenticated :: "world \<Rightarrow> bool" where
  "isAuthenticated w = (userInfo w \<noteq> JNull)"

text \<open>\<open>this.userInfo?.username || 'Guest'\<close> and \<open>this.userInfo?.user_id || null\<close>.\<close>

definition getUsername :: "world \<Rightarrow> jsval" where
  "getUsername w =
     (if truthy (opt_member (userInfo w) ''username'') then opt_member (userInfo w) ''username''
      else JStr ''Guest'')"

definition getUserId :: "world \<Rightarrow> jsval" where
  "getUserId w =
     (if truthy (opt_member (userInfo w) ''user_id'') then opt_member (userInfo w) ''user_id''
      else JNull)"

subsection \<open>Sequences of operations\<close>

text \<open>
  What can happen to a constructed adapter: the host application invokes a public
  operation (the vendor behaving in some way while it runs), or the page's address
  changes under it.
\<close>

datatype operation = SignIn | GetUserInfo | SaveScore int | GetLeaderboard | SignOut | HandleCallback

datatype event = Invoke operation vendor | Relocate location

fun perform :: "event \<Rightarrow> world \<Rightarrow> world" where
  "perform (Invoke SignIn v) w = snd (signIn v w)"
| "perform (Invoke GetUserInfo v) w = snd (getUserInfo v w)"
| "perform (Invoke (SaveScore score) v) w = snd (saveScore v score w)"
| "perform (Invoke GetLeaderboard v) w = snd (getLeaderboard v w)"
| "perform (Invoke SignOut v) w = snd (signOut v w)"
| "perform (Invoke HandleCallback v) w = snd (handleCallback v w)"
| "perform (Relocate l) w = w\<lparr>loc := l\<rparr>"

fun run :: "event list \<Rightarrow> world \<Rightarrow> world" where
  "run [] w = w"
| "run (e # es) w = run es (perform e w)"

text \<open>
  What the constructor establishes and every operation keeps: the handle was never
  \<open>null\<close>; it is an object exactly when the flag is set; and while it is
  \<open>undefined\<close> nothing has been cached.
\<close>

definition coherent :: "world \<Rightarrow> bool" where
  "coherent w =
     (case sdk w of
        SdkUndefined \<Rightarrow> \<not> isInitialized w \<and> userInfo w = JNull
      | SdkNull \<Rightarrow> False
      | SdkObject config \<Rightarrow> isInitialized w)"

subsection \<open>Concrete pages and vendors\<close>

definition sdk_loads :: "sdk_config \<Rightarrow> jsval option" where
  "sdk_loads config = None"

definition sdk_missing :: "sdk_config \<Rightarrow> jsval option" where
  "sdk_missing config = Some (TypeError ''window.FunticoSDK is not a constructor'')"

definition page_at :: "string \<Rightarrow> location" where
  "page_at query =
     \<lparr>hostname = ''localhost'', origin = ''http://localhost:3000'', pathname = ''/'',
      search = query, hash = [], href = ''http://localhost:3000/'' @ query,
      scheme_relative = None\<rparr>"

text \<open>The page \<open>http://localhost:3000//evil.example/cb?code=abc123\<close>.\<close>

definition page_two_slashes :: location where
  "page_two_slashes =
     \<lparr>hostname = ''localhost'', origin = ''http://localhost:3000'',
      pathname = ''//evil.example/cb'', search = ''?code=abc123'', hash = [],
      href = ''http://localhost:3000//evil.example/cb?code=abc123'',
      scheme_relative = None\<rparr>"

definition alice :: jsval where
  "alice = JObj [(''username'', JStr ''alice''), (''user_id'', JNum 7)]"

definition server_error :: jsval where
  "server_error = JObj [(''name'', JStr ''internal_server_error''), (''status'', JNum 500)]"

text \<open>A vendor whose every method succeeds, \<open>getUserInfo\<close> with the given value.\<close>

definition vendor_up :: "jsval \<Rightarrow> vendor" where
  "vendor_up u =
     \<lparr>v_getUserInfo = Resolves u,
      v_signInWithFuntico = (\<lambda>callbackUrl. Resolves JUndefined),
      v_saveScore = (\<lambda>score. Resolves JUndefined),
      v_getLeaderboard = Resolves (JArr []),
      v_signOut = (\<lambda>redirectUrl. Resolves JUndefined),
      v_exchangeCodeForToken = (\<lambda>code. Resolves (JObj [(''access_token'', JStr ''t'')]))\<rparr>"

text \<open>A vendor whose every method rejects with the given error.\<close>

definition vendor_down :: "jsval \<Rightarrow> vendor" where
  "vendor_down e =
     \<lparr>v_getUserInfo = Rejects e,
      v_signInWithFuntico = (\<lambda>callbackUrl. Rejects e),
      v_saveScore = (\<lambda>score. Rejects e),
      v_getLeaderboard = Rejects e,
      v_signOut = (\<lambda>redirectUrl. Rejects e),
      v_exchangeCodeForToken = (\<lambda>code. Rejects e)\<rparr>"

definition redirect_uri_error :: jsval where
  "redirect_uri_error =
     JObj [(''name'', JStr ''Error''), (''message'', JStr ''The redirect_uri is not registered'')]"

text \<open>A ready adapter on a local page, and one that has handled a successful callback.\<close>

definition fresh :: world where
  "fresh = FunticoManager sdk_loads (page_at [])"

definition signed_in :: world where
  "signed_in =
     run [Invoke HandleCallback (vendor_up alice)] (FunticoManager sdk_loads (page_at ''?code=abc123''))"

text \<open>An identity whose username is the empty string.\<close>

definition nameless :: jsval where
  "nameless = JObj [(''username'', JStr []), (''user_id'', JNum 7)]"

section \<open>Properties\<close>

subsection \<open>No operation touches the handle or the flag\<close>

lemma await_sdk_fields:
  "sdk (snd (await_sdk c out w)) = sdk w"
  "isInitialized (snd (await_sdk c out w)) = isInitialized w"
  "userInfo (snd (await_sdk c out w)) = userInfo w"
  "loc (snd (await_sdk c out w)) = loc w"
  "navigated (snd (await_sdk c out w)) = navigated w"
  "alerts (snd (await_sdk c out w)) = alerts w"
  by (simp_all add: await_sdk_def split: sdk_ref.splits)

lemma signIn_session_handle:
  "sdk (snd (signIn_session v w)) = sdk w \<and>
   isInitialized (snd (signIn_session v w)) = isInitialized w"
proof (cases "await_sdk CallGetUserInfo (v_getUserInfo v) w")
  case (Pair r w1)
  then have "sdk w1 = sdk w" "isInitialized w1 = isInitialized w"
    using await_sdk_fields(1,2) [of CallGetUserInfo "v_getUserInfo v" w] by simp_all
  with Pair show ?thesis
    by (cases r) (simp_all add: signIn_session_def)
qed

lemma signIn_attempt_handle:
  "sdk (snd (signIn_attempt v w)) = sdk w \<and>
   isInitialized (snd (signIn_attempt v w)) = isInitialized w"
proof (cases "sdk w")
  case (SdkObject config)
  then show ?thesis
    by (cases "v_signInWithFuntico v (origin (loc w) @ ''/'')")
       (simp_all add: signIn_attempt_def await_sdk_def settle_def Let_def)
qed (simp_all add: signIn_attempt_def)

lemma signIn_catch_handle:
  "sdk (snd (signIn_catch e w)) = sdk w \<and>
   isInitialized (snd (signIn_catch e w)) = isInitialized w"
  by (simp add: signIn_catch_def split: completion.splits)

lemma signIn_handle:
  "sdk (snd (signIn v w)) = sdk w \<and> isInitialized (snd (signIn v w)) = isInitialized w"
proof (cases "isReady w")
  case False
  then show ?thesis by (simp add: signIn_def)
next
  case True
  obtain r w1 where s:
    "(if str_includes (hostname (loc w)) ''funtico.com'' then signIn_session v w
      else (Normal None, w)) = (r, w1)"
    by (cases "(if str_includes (hostname (loc w)) ''funtico.com'' then signIn_session v w
                else (Normal None, w))")
  then have w1: "sdk w1 = sdk w \<and> isInitialized w1 = isInitialized w"
    using signIn_session_handle [of v w] by (auto split: if_splits)
  obtain r2 w2 where a: "signIn_attempt v w1 = (r2, w2)"
    by (cases "signIn_attempt v w1")
  then have w2: "sdk w2 = sdk w \<and> isInitialized w2 = isInitialized w"
    using signIn_attempt_handle [of v w1] w1 by simp
  show ?thesis
    using True s a w1 w2 signIn_catch_handle [of _ w2]
    by (simp add: signIn_def split: completion.splits option.splits)
qed

lemma getUserInfo_handle:
  "sdk (snd (getUserInfo v w)) = sdk w \<and> isInitialized (snd (getUserInfo v w)) = isInitialized w"
proof (cases "await_sdk CallGetUserInfo (v_getUserInfo v) w")
  case (Pair r w1)
  then have "sdk w1 = sdk w" "isInitialized w1 = isInitialized w"
    using await_sdk_fields(1,2) [of CallGetUserInfo "v_getUserInfo v" w] by simp_all
  with Pair show ?thesis
    by (cases r) (simp_all add: getUserInfo_def)
qed

lemma saveScore_handle:
  "sdk (snd (saveScore v n w)) = sdk w \<and> isInitialized (snd (saveScore v n w)) = isInitialized w"
proof (cases "await_sdk (CallSaveScore n) (v_saveScore v n) w")
  case (Pair r w1)
  then have "sdk w1 = sdk w" "isInitialized w1 = isInitialized w"
    using await_sdk_fields(1,2) [of "CallSaveScore n" "v_saveScore v n" w] by simp_all
  with Pair show ?thesis
    by (cases r) (simp_all add: saveScore_def)
qed

lemma getLeaderboard_handle:
  "sdk (snd (getLeaderboard v w)) = sdk w \<and>
   isInitialized (snd (getLeaderboard v w)) = isInitialized w"
proof (cases "await_sdk CallGetLeaderboard (v_getLeaderboard v) w")
  case (Pair r w1)
  then have "sdk w1 = sdk w" "isInitialized w1 = isInitialized w"
    using await_sdk_fields(1,2) [of CallGetLeaderboard "v_getLeaderboard v" w] by simp_all
  with Pair show ?thesis
    by (cases r) (simp_all add: getLeaderboard_def)
qed

lemma signOut_handle:
  "sdk (snd (signOut v w)) = sdk w \<and> isInitialized (snd (signOut v w)) = isInitialized w"
proof (cases "await_sdk (CallSignOut (href (loc w))) (v_signOut v (href (loc w))) w")
  case (Pair r w1)
  then have "sdk w1 = sdk w" "isInitialized w1 = isInitialized w"
    using await_sdk_fields(1,2) [of "CallSignOut (href (loc w))" "v_signOut v (href (loc w))" w]
    by simp_all
  with Pair show ?thesis
    by (cases r) (simp_all add: signOut_def)
qed

lemma replaceState_pathname_fields:
  "sdk (snd (replaceState_pathname w)) = sdk w"
  "isInitialized (snd (replaceState_pathname w)) = isInitialized w"
  "userInfo (snd (replaceState_pathname w)) = userInfo w"
  "calls (snd (replaceState_pathname w)) = calls w"
  "fst (replaceState_pathname w) \<noteq> Hang"
  by (simp_all add: replaceState_pathname_def split: option.splits)

lemma replaceState_pathname_accepted:
  assumes "replaceState_accepts (loc w)"
  shows "fst (replaceState_pathname w) = Normal JUndefined"
    and "search (loc (snd (replaceState_pathname w))) = []"
    and "hash (loc (snd (replaceState_pathname w))) = []"
  using assms
  by (auto simp add: replaceState_pathname_def replaceState_accepts_def split: if_splits)

lemma replaceState_pathname_ends:
  "fst (case replaceState_pathname w of
          (Normal r, w3) \<Rightarrow> (Normal True, w3)
        | (Throw e, w3) \<Rightarrow> (Normal False, w3)
        | (Hang, w3) \<Rightarrow> (Hang, w3)) \<noteq> Throw x"
  "fst (case replaceState_pathname w of
          (Normal r, w3) \<Rightarrow> (Normal True, w3)
        | (Throw e, w3) \<Rightarrow> (Normal False, w3)
        | (Hang, w3) \<Rightarrow> (Hang, w3)) \<noteq> Hang"
proof -
  obtain r3 w3 where p3: "replaceState_pathname w = (r3, w3)"
    by (cases "replaceState_pathname w")
  then have "r3 \<noteq> Hang"
    using replaceState_pathname_fields(5) [of w] by simp
  with p3 show
    "fst (case replaceState_pathname w of
            (Normal r, w3) \<Rightarrow> (Normal True, w3)
          | (Throw e, w3) \<Rightarrow> (Normal False, w3)
          | (Hang, w3) \<Rightarrow> (Hang, w3)) \<noteq> Throw x"
    "fst (case replaceState_pathname w of
            (Normal r, w3) \<Rightarrow> (Normal True, w3)
          | (Throw e, w3) \<Rightarrow> (Normal False, w3)
          | (Hang, w3) \<Rightarrow> (Hang, w3)) \<noteq> Hang"
    by (cases r3; simp)+
qed

lemma replaceState_pathname_refused:
  assumes "\<not> replaceState_accepts (loc w)"
  shows "replaceState_pathname w = (Throw SecurityError, w)"
  using assms
  by (simp add: replaceState_pathname_def replaceState_accepts_def split: option.splits if_splits)

lemma handleCallback_exchange_handle:
  "sdk (snd (handleCallback_exchange v c w)) = sdk w \<and>
   isInitialized (snd (handleCallback_exchange v c w)) = isInitialized w"
proof (cases "await_sdk (CallExchangeCodeForToken c) (v_exchangeCodeForToken v c) w")
  case (Pair r w1)
  then have w1: "sdk w1 = sdk w" "isInitialized w1 = isInitialized w"
    using await_sdk_fields(1,2) [of "CallExchangeCodeForToken c" "v_exchangeCodeForToken v c" w]
    by simp_all
  obtain r2 w2 where p2: "await_sdk CallGetUserInfo (v_getUserInfo v) w1 = (r2, w2)"
    by (cases "await_sdk CallGetUserInfo (v_getUserInfo v) w1")
  then have w2: "sdk w2 = sdk w" "isInitialized w2 = isInitialized w"
    using await_sdk_fields(1,2) [of CallGetUserInfo "v_getUserInfo v" w1] w1 by simp_all
  show ?thesis
  proof (cases r)
    case (Normal t)
    show ?thesis
    proof (cases r2)
      case (Normal u)
      obtain r3 w3 where p3: "replaceState_pathname (w2\<lparr>userInfo := u\<rparr>) = (r3, w3)"
        by (cases "replaceState_pathname (w2\<lparr>userInfo := u\<rparr>)")
      then have "sdk w3 = sdk w" "isInitialized w3 = isInitialized w"
        using replaceState_pathname_fields(1,2) [of "w2\<lparr>userInfo := u\<rparr>"] w2 by simp_all
      with Pair p2 p3 \<open>r = Normal t\<close> Normal show ?thesis
        by (cases r3) (simp_all add: handleCallback_exchange_def)
    qed (use Pair p2 w2 \<open>r = Normal t\<close> in \<open>simp_all add: handleCallback_exchange_def\<close>)
  qed (use Pair w1 in \<open>simp_all add: handleCallback_exchange_def\<close>)
qed

lemma handleCallback_handle:
  "sdk (snd (handleCallback v w)) = sdk w \<and>
   isInitialized (snd (handleCallback v w)) = isInitialized w"
  using handleCallback_exchange_handle [of v _ w]
  by (simp add: handleCallback_def Let_def split: option.splits)

lemma perform_handle:
  "sdk (perform e w) = sdk w \<and> isInitialized (perform e w) = isInitialized w"
proof (cases e)
  case (Invoke op v)
  then show ?thesis
    by (cases op)
      (simp_all add: signIn_handle getUserInfo_handle saveScore_handle getLeaderboard_handle
        signOut_handle handleCallback_handle)
next
  case (Relocate l)
  then show ?thesis by simp
qed

lemma run_handle:
  "sdk (run es w) = sdk w \<and> isInitialized (run es w) = isInitialized w"
proof (induction es arbitrary: w)
  case Nil
  show ?case by simp
next
  case (Cons e es)
  have "sdk (run (e # es) w) = sdk (perform e w)"
    using Cons [of "perform e w"] by simp
  moreover have "isInitialized (run (e # es) w) = isInitialized (perform e w)"
    using Cons [of "perform e w"] by simp
  ultimately show ?case
    using perform_handle [of e w] by simp
qed

subsection \<open>Coherence\<close>

lemma initializeSDK_cases:
  "(\<exists>config. initializeSDK FunticoSDK w = w\<lparr>sdk := SdkObject config, isInitialized := True\<rparr>)
   \<or> initializeSDK FunticoSDK w = w\<lparr>isInitialized := False\<rparr>"
  unfolding initializeSDK_def Let_def
  by (simp split: option.split split del: if_split) blast

lemma coherent_FunticoManager: "coherent (FunticoManager FunticoSDK l)"
  using initializeSDK_cases [of FunticoSDK
      "\<lparr>sdk = SdkUndefined, isInitialized = False, userInfo = JNull, loc = l,
        navigated = None, alerts = [], calls = []\<rparr>"]
  by (auto simp add: FunticoManager_def coherent_def)

lemma coherent_unready:
  "coherent w \<Longrightarrow> \<not> isReady w \<Longrightarrow> sdk w = SdkUndefined \<and> userInfo w = JNull"
  by (cases "sdk w") (simp_all add: coherent_def isReady_def)

lemma coherent_ready:
  "coherent w \<Longrightarrow> isReady w \<Longrightarrow> \<exists>config. sdk w = SdkObject config"
  by (cases "sdk w") (simp_all add: coherent_def isReady_def)

lemma handleCallback_no_handle:
  "sdk w = SdkUndefined \<Longrightarrow> handleCallback v w = (Normal False, w)"
  by (simp add: handleCallback_def handleCallback_exchange_def await_sdk_def Let_def
      split: option.splits)

lemma perform_no_handle:
  assumes "sdk w = SdkUndefined" and "\<not> isInitialized w"
  shows "perform e w = w \<or> (\<exists>l. perform e w = w\<lparr>loc := l\<rparr>)"
proof (cases e)
  case (Invoke op v)
  from assms have "\<not> isReady w" by (simp add: isReady_def)
  with Invoke assms(1) show ?thesis
    by (cases op)
      (simp_all add: signIn_def getUserInfo_def saveScore_def getLeaderboard_def signOut_def
        handleCallback_no_handle)
next
  case (Relocate l)
  then show ?thesis by auto
qed

lemma coherent_perform:
  assumes "coherent w"
  shows "coherent (perform e w)"
proof (cases "sdk w")
  case SdkUndefined
  with assms have "\<not> isInitialized w" "userInfo w = JNull"
    by (simp_all add: coherent_def)
  with SdkUndefined perform_no_handle [of w e] assms show ?thesis
    by (auto simp add: coherent_def)
next
  case SdkNull
  with assms show ?thesis by (simp add: coherent_def)
next
  case (SdkObject config)
  with assms perform_handle [of e w] show ?thesis
    by (simp add: coherent_def)
qed

lemma coherent_run: "coherent w \<Longrightarrow> coherent (run es w)"
  by (induction es arbitrary: w) (simp_all add: coherent_perform)

lemma coherent_constructed:
  "coherent (run es (FunticoManager FunticoSDK l))"
  by (simp add: coherent_FunticoManager coherent_run)

lemma signed_in_value:
  "signed_in =
     \<lparr>sdk = SdkObject \<lparr>authClientId = ''gl-avalanche-knight'', env = ''sandbox'', autoLogin = False\<rparr>,
      isInitialized = True, userInfo = alice,
      loc = page_at [], navigated = None, alerts = [],
      calls = [CallExchangeCodeForToken ''abc123'', CallGetUserInfo]\<rparr>"
  by (simp add: signed_in_def FunticoManager_def initializeSDK_def sdk_loads_def page_at_def
      handleCallback_def handleCallback_exchange_def await_sdk_def settle_def vendor_up_def
      replaceState_pathname_def URLSearchParams_def form_decode_def hexval_def params_get_def
      truthy_param_def utf8_first_def)

lemma fresh_value:
  "fresh =
     \<lparr>sdk = SdkObject \<lparr>authClientId = ''gl-avalanche-knight'', env = ''sandbox'', autoLogin = False\<rparr>,
      isInitialized = True, userInfo = JNull,
      loc = page_at [], navigated = None, alerts = [], calls = []\<rparr>"
  by (simp add: fresh_def FunticoManager_def initializeSDK_def sdk_loads_def page_at_def)

subsection \<open>Readiness\<close>

text \<open>
  C10. Readiness is fixed at construction. No public operation assigns \<open>isInitialized\<close>
  or \<open>sdk\<close>: after any sequence of operations (and of address changes in between)
  both fields hold what they held before, so \<open>isReady\<close> answers as it did the first
  time.
\<close>

theorem readiness_fixed:
  "sdk (run es w) = sdk w \<and> isInitialized (run es w) = isInitialized w
   \<and> isReady (run es w) = isReady w"
  using run_handle [of es w] by (simp add: isReady_def)

text \<open>
  C1. On an adapter that is not ready, whatever was done with it since its
  construction, each of \<open>signIn\<close>, \<open>getUserInfo\<close>, \<open>saveScore\<close>, \<open>getLeaderboard\<close>,
  \<open>signOut\<close> and \<open>handleCallback\<close> returns its empty result (false, null, false, the
  empty array, false, false) and leaves the whole state as it was; the log of vendor
  calls is part of that state, so no vendor method is invoked. \<open>handleCallback\<close> has no
  readiness guard of its own: with an authorization code in the address it reaches
  for \<open>exchangeCodeForToken\<close> on the \<open>undefined\<close> handle, and its handler turns the
  resulting throw into false.
\<close>

theorem unready_returns_empty:
  assumes "w = run es (FunticoManager FunticoSDK l)" and "\<not> isReady w"
  shows "signIn v w = (Normal False, w) \<and> getUserInfo v w = (Normal JNull, w)
    \<and> saveScore v score w = (Normal False, w) \<and> getLeaderboard v w = (Normal (JArr []), w)
    \<and> signOut v w = (Normal False, w) \<and> handleCallback v w = (Normal False, w)"
proof -
  have "coherent w"
    using assms(1) coherent_FunticoManager coherent_run by simp
  with assms(2) have "sdk w = SdkUndefined"
    using coherent_unready by blast
  then have "handleCallback v w = (Normal False, w)"
    by (rule handleCallback_no_handle)
  with assms(2) show ?thesis
    by (simp add: signIn_def getUserInfo_def saveScore_def getLeaderboard_def signOut_def)
qed

theorem unready_returns_empty_witness:
  "\<not> isReady (FunticoManager sdk_missing (page_at ''?code=abc123''))
   \<and> signIn (vendor_up alice) (FunticoManager sdk_missing (page_at ''?code=abc123''))
       = (Normal False, FunticoManager sdk_missing (page_at ''?code=abc123''))
   \<and> getUserInfo (vendor_up alice) (FunticoManager sdk_missing (page_at ''?code=abc123''))
       = (Normal JNull, FunticoManager sdk_missing (page_at ''?code=abc123''))
   \<and> saveScore (vendor_up alice) 1200 (FunticoManager sdk_missing (page_at ''?code=abc123''))
       = (Normal False, FunticoManager sdk_missing (page_at ''?code=abc123''))
   \<and> getLeaderboard (vendor_up alice) (FunticoManager sdk_missing (page_at ''?code=abc123''))
       = (Normal (JArr []), FunticoManager sdk_missing (page_at ''?code=abc123''))
   \<and> signOut (vendor_up alice) (FunticoManager sdk_missing (page_at ''?code=abc123''))
       = (Normal False, FunticoManager sdk_missing (page_at ''?code=abc123''))
   \<and> handleCallback (vendor_up alice) (FunticoManager sdk_missing (page_at ''?code=abc123''))
       = (Normal False, FunticoManager sdk_missing (page_at ''?code=abc123''))"
proof -
  have unready: "\<not> isReady (FunticoManager sdk_missing (page_at ''?code=abc123''))"
    by (simp add: isReady_def FunticoManager_def initializeSDK_def sdk_missing_def)
  have start: "FunticoManager sdk_missing (page_at ''?code=abc123'')
      = run [] (FunticoManager sdk_missing (page_at ''?code=abc123''))"
    by simp
  show ?thesis
    using unready unready_returns_empty [OF start unready, of "vendor_up alice" 1200] by simp
qed

text \<open>
  The constructor is what protects \<open>handleCallback\<close>: it leaves the flag unset only
  with the handle \<open>undefined\<close>. Were the flag unset with the handle an object, the
  operation, which never consults \<open>isReady\<close>, would call the vendor.
\<close>

lemma handleCallback_unguarded:
  assumes "sdk w = SdkObject config" and "\<not> isInitialized w"
    and "params_get (URLSearchParams (search (loc w))) ''error'' = None"
    and "params_get (URLSearchParams (search (loc w))) ''code'' = Some c" and "c \<noteq> []"
  shows "\<not> isReady w \<and> calls (snd (handleCallback v w)) \<noteq> calls w"
proof -
  obtain r w1 where a:
    "await_sdk (CallExchangeCodeForToken c) (v_exchangeCodeForToken v c) w = (r, w1)"
    by (cases "await_sdk (CallExchangeCodeForToken c) (v_exchangeCodeForToken v c) w")
  with assms(1) have w1: "calls w1 = calls w @ [CallExchangeCodeForToken c]" "sdk w1 = SdkObject config"
    by (auto simp add: await_sdk_def)
  obtain r2 w2 where b: "await_sdk CallGetUserInfo (v_getUserInfo v) w1 = (r2, w2)"
    by (cases "await_sdk CallGetUserInfo (v_getUserInfo v) w1")
  with w1 have w2: "calls w2 = calls w @ [CallExchangeCodeForToken c, CallGetUserInfo]"
    by (auto simp add: await_sdk_def)
  have "handleCallback v w = handleCallback_exchange v c w"
    using assms by (simp add: handleCallback_def truthy_param_def)
  have w3: "calls (snd (replaceState_pathname (w2\<lparr>userInfo := u\<rparr>))) = calls w2" for u
    using replaceState_pathname_fields(4) [of "w2\<lparr>userInfo := u\<rparr>"] by simp
  have "calls (snd (handleCallback_exchange v c w)) \<noteq> calls w"
  proof (cases r)
    case (Normal t)
    show ?thesis
    proof (cases r2)
      case (Normal u)
      obtain r3 w3' where p3: "replaceState_pathname (w2\<lparr>userInfo := u\<rparr>) = (r3, w3')"
        by (cases "replaceState_pathname (w2\<lparr>userInfo := u\<rparr>)")
      with w3 [of u] have "calls w3' = calls w2" by simp
      with a b p3 w2 \<open>r = Normal t\<close> Normal show ?thesis
        by (cases r3) (simp_all add: handleCallback_exchange_def)
    qed (use a b w2 \<open>r = Normal t\<close> in \<open>simp_all add: handleCallback_exchange_def\<close>)
  qed (use a w1 in \<open>simp_all add: handleCallback_exchange_def\<close>)
  with \<open>handleCallback v w = handleCallback_exchange v c w\<close>
  have "calls (snd (handleCallback v w)) \<noteq> calls w"
    by simp
  with assms(2) show ?thesis
    by (simp add: isReady_def)
qed

subsection \<open>The cached identity\<close>

text \<open>
  C3. Once a non-empty identity is cached (a value \<open>if (this.userInfo)\<close> takes for
  present), \<open>getUserInfo\<close> returns that value and changes nothing: the log of vendor
  calls is as before, whatever the vendor would have answered. A second call, against
  any vendor, returns the same value again.
\<close>

theorem getUserInfo_cached:
  assumes "w = run es (FunticoManager FunticoSDK l)" and "truthy (userInfo w)"
  shows "getUserInfo v w = (Normal (userInfo w), w)
    \<and> getUserInfo v' (snd (getUserInfo v w)) = (Normal (userInfo w), w)"
proof -
  have "coherent w"
    using assms(1) coherent_constructed by simp
  moreover from assms(2) have "userInfo w \<noteq> JNull"
    by auto
  ultimately have "isReady w"
    using coherent_unready by blast
  with assms(2) show ?thesis
    by (simp add: getUserInfo_def)
qed

theorem getUserInfo_cached_witness:
  "truthy (userInfo signed_in)
   \<and> getUserInfo (vendor_down server_error) signed_in = (Normal alice, signed_in)
   \<and> getUserInfo (vendor_up JNull) (snd (getUserInfo (vendor_down server_error) signed_in))
       = (Normal alice, signed_in)"
proof -
  have cached: "userInfo signed_in = alice"
    by (simp add: signed_in_value)
  then have full: "truthy (userInfo signed_in)"
    by (simp add: alice_def)
  show ?thesis
    using full cached
      getUserInfo_cached [OF signed_in_def full, of "vendor_down server_error" "vendor_up JNull"]
      getUserInfo_cached [OF signed_in_def full, of "vendor_up JNull" "vendor_up JNull"]
    by simp
qed

text \<open>
  C4. \<open>signOut\<close> on a ready adapter. When the vendor's \<open>signOut\<close> succeeds, the call
  returns true and the cached identity is \<open>null\<close>, so that \<open>isAuthenticated\<close> is false
  afterwards. When it fails, the call returns false and the cached identity is what
  it was.
\<close>

theorem signOut_outcomes:
  assumes "w = run es (FunticoManager FunticoSDK l)" and "isReady w"
  shows "(v_signOut v (href (loc w)) = Resolves r \<longrightarrow>
            signOut v w
              = (Normal True, w\<lparr>userInfo := JNull, calls := calls w @ [CallSignOut (href (loc w))]\<rparr>)
            \<and> \<not> isAuthenticated (snd (signOut v w)))
       \<and> (v_signOut v (href (loc w)) = Rejects e \<longrightarrow>
            signOut v w = (Normal False, w\<lparr>calls := calls w @ [CallSignOut (href (loc w))]\<rparr>)
            \<and> userInfo (snd (signOut v w)) = userInfo w)"
proof -
  have "coherent w"
    using assms(1) coherent_constructed by simp
  with assms(2) obtain config where "sdk w = SdkObject config"
    using coherent_ready by blast
  with assms(2) show ?thesis
    by (simp add: signOut_def await_sdk_def settle_def isAuthenticated_def)
qed

theorem signOut_outcomes_witness:
  "isReady signed_in \<and> isAuthenticated signed_in
   \<and> fst (signOut (vendor_up alice) signed_in) = Normal True
   \<and> \<not> isAuthenticated (snd (signOut (vendor_up alice) signed_in))
   \<and> fst (signOut (vendor_down server_error) signed_in) = Normal False
   \<and> userInfo (snd (signOut (vendor_down server_error) signed_in)) = alice"
proof -
  have ready: "isReady signed_in"
    by (simp add: signed_in_value isReady_def)
  have up: "v_signOut (vendor_up alice) (href (loc signed_in)) = Resolves JUndefined"
    by (simp add: vendor_up_def)
  have down: "v_signOut (vendor_down server_error) (href (loc signed_in)) = Rejects server_error"
    by (simp add: vendor_down_def)
  have cached: "userInfo signed_in = alice"
    by (simp add: signed_in_value)
  then have "isAuthenticated signed_in"
    by (simp add: isAuthenticated_def alice_def)
  then show ?thesis
    using ready up down cached
      signOut_outcomes [OF signed_in_def ready, of "vendor_up alice" JUndefined server_error]
      signOut_outcomes [OF signed_in_def ready, of "vendor_down server_error" JUndefined server_error]
    by (simp add: isAuthenticated_def)
qed

subsection \<open>Score submission\<close>

text \<open>
  C5. \<open>saveScore\<close> on a ready adapter returns true whenever the vendor call settles,
  by success or by failure: it returns neither false nor a thrown error.
\<close>

theorem saveScore_true:
  assumes "isReady w" and "v_saveScore v score \<noteq> Pending"
  shows "fst (saveScore v score w) = Normal True"
proof (cases "sdk w")
  case (SdkObject config)
  with assms show ?thesis
    by (cases "v_saveScore v score") (simp_all add: saveScore_def await_sdk_def settle_def)
qed (use assms in \<open>simp_all add: saveScore_def await_sdk_def\<close>)

theorem saveScore_true_witness:
  "isReady fresh \<and> v_saveScore (vendor_up alice) 1200 \<noteq> Pending
   \<and> v_saveScore (vendor_down server_error) 1200 \<noteq> Pending
   \<and> fst (saveScore (vendor_up alice) 1200 fresh) = Normal True
   \<and> fst (saveScore (vendor_down server_error) 1200 fresh) = Normal True"
proof -
  have ready: "isReady fresh"
    by (simp add: fresh_value isReady_def)
  have up: "v_saveScore (vendor_up alice) 1200 \<noteq> Pending"
    by (simp add: vendor_up_def)
  have down: "v_saveScore (vendor_down server_error) 1200 \<noteq> Pending"
    by (simp add: vendor_down_def)
  show ?thesis
    using ready up down saveScore_true [OF ready up] saveScore_true [OF ready down] by simp
qed

subsection \<open>How the operations end\<close>

lemma await_sdk_ends:
  "fst (await_sdk c out w) = Hang \<Longrightarrow> out = Pending"
  by (cases "sdk w"; cases out) (simp_all add: await_sdk_def settle_def)

lemma signIn_session_ends:
  "fst (signIn_session v w) \<noteq> Throw e"
  "fst (signIn_session v w) = Hang \<Longrightarrow> v_getUserInfo v = Pending"
proof -
  obtain r w1 where a: "await_sdk CallGetUserInfo (v_getUserInfo v) w = (r, w1)"
    by (cases "await_sdk CallGetUserInfo (v_getUserInfo v) w")
  then show "fst (signIn_session v w) \<noteq> Throw e"
    by (cases r) (simp_all add: signIn_session_def)
  assume "fst (signIn_session v w) = Hang"
  with a have "r = Hang"
    by (cases r) (simp_all add: signIn_session_def split: if_splits)
  with a show "v_getUserInfo v = Pending"
    using await_sdk_ends [of CallGetUserInfo "v_getUserInfo v" w] by simp
qed

lemma signIn_attempt_ends:
  "fst (signIn_attempt v w) = Throw e \<Longrightarrow>
     e = TypeError ''Cannot convert undefined or null to object''"
  "fst (signIn_attempt v w) = Hang \<Longrightarrow> v_signInWithFuntico v (origin (loc w) @ ''/'') = Pending"
  by (cases "sdk w"; cases "v_signInWithFuntico v (origin (loc w) @ ''/'')";
      simp add: signIn_attempt_def await_sdk_def settle_def Let_def)+

lemma signIn_catch_TypeError:
  "signIn_catch (TypeError ''Cannot convert undefined or null to object'') w = (Normal False, w)"
  by (simp add: signIn_catch_def TypeError_def)

lemma signIn_ends:
  "fst (signIn v w) \<noteq> Throw e"
  "fst (signIn v w) = Hang \<Longrightarrow>
     v_getUserInfo v = Pending \<or> v_signInWithFuntico v (origin (loc w) @ ''/'') = Pending"
proof -
  let ?first = "if str_includes (hostname (loc w)) ''funtico.com'' then signIn_session v w
                else (Normal None, w)"
  obtain r w1 where s: "?first = (r, w1)"
    by (cases ?first)
  have r_throw: "r \<noteq> Throw x" for x
    using s signIn_session_ends(1) [of v w x] by (auto split: if_splits)
  have r_hang: "r = Hang \<Longrightarrow> v_getUserInfo v = Pending"
    using s signIn_session_ends(2) [of v w] by (auto split: if_splits)
  have w1_loc: "loc w1 = loc w"
    using s await_sdk_fields(4) [of CallGetUserInfo "v_getUserInfo v" w]
    by (auto simp add: signIn_session_def split: if_splits prod.splits completion.splits)
  obtain r2 w2 where a: "signIn_attempt v w1 = (r2, w2)"
    by (cases "signIn_attempt v w1")
  have r2_throw: "r2 = Throw x \<Longrightarrow> signIn_catch x w2 = (Normal False, w2)" for x
    using a signIn_attempt_ends(1) [of v w1 x] signIn_catch_TypeError by simp
  have r2_hang: "r2 = Hang \<Longrightarrow> v_signInWithFuntico v (origin (loc w) @ ''/'') = Pending"
    using a signIn_attempt_ends(2) [of v w1] w1_loc by simp
  show "fst (signIn v w) \<noteq> Throw e"
  proof (cases "isReady w")
    case False
    then show ?thesis by (simp add: signIn_def)
  next
    case True
    with s a r_throw r2_throw show ?thesis
      by (cases r; cases r2) (auto simp add: signIn_def split: option.splits)
  qed
  assume h: "fst (signIn v w) = Hang"
  show "v_getUserInfo v = Pending \<or> v_signInWithFuntico v (origin (loc w) @ ''/'') = Pending"
  proof (cases "isReady w")
    case False
    with h show ?thesis by (simp add: signIn_def)
  next
    case True
    with h s a r_hang r2_hang r2_throw show ?thesis
      by (cases r; cases r2) (auto simp add: signIn_def split: option.splits)
  qed
qed

lemma getUserInfo_ends:
  "fst (getUserInfo v w) \<noteq> Throw e"
  "fst (getUserInfo v w) = Hang \<Longrightarrow> v_getUserInfo v = Pending"
proof -
  obtain r w1 where a: "await_sdk CallGetUserInfo (v_getUserInfo v) w = (r, w1)"
    by (cases "await_sdk CallGetUserInfo (v_getUserInfo v) w")
  then show "fst (getUserInfo v w) \<noteq> Throw e"
    by (cases r) (simp_all add: getUserInfo_def)
  assume "fst (getUserInfo v w) = Hang"
  with a have "r = Hang"
    by (cases r) (simp_all add: getUserInfo_def split: if_splits)
  with a show "v_getUserInfo v = Pending"
    using await_sdk_ends [of CallGetUserInfo "v_getUserInfo v" w] by simp
qed

lemma saveScore_ends:
  "fst (saveScore v score w) \<noteq> Throw e"
  "fst (saveScore v score w) = Hang \<Longrightarrow> v_saveScore v score = Pending"
proof -
  obtain r w1 where a: "await_sdk (CallSaveScore score) (v_saveScore v score) w = (r, w1)"
    by (cases "await_sdk (CallSaveScore score) (v_saveScore v score) w")
  then show "fst (saveScore v score w) \<noteq> Throw e"
    by (cases r) (simp_all add: saveScore_def)
  assume "fst (saveScore v score w) = Hang"
  with a have "r = Hang"
    by (cases r) (simp_all add: saveScore_def split: if_splits)
  with a show "v_saveScore v score = Pending"
    using await_sdk_ends [of "CallSaveScore score" "v_saveScore v score" w] by simp
qed

lemma getLeaderboard_ends:
  "fst (getLeaderboard v w) \<noteq> Throw e"
  "fst (getLeaderboard v w) = Hang \<Longrightarrow> v_getLeaderboard v = Pending"
proof -
  obtain r w1 where a: "await_sdk CallGetLeaderboard (v_getLeaderboard v) w = (r, w1)"
    by (cases "await_sdk CallGetLeaderboard (v_getLeaderboard v) w")
  then show "fst (getLeaderboard v w) \<noteq> Throw e"
    by (cases r) (simp_all add: getLeaderboard_def)
  assume "fst (getLeaderboard v w) = Hang"
  with a have "r = Hang"
    by (cases r) (simp_all add: getLeaderboard_def split: if_splits)
  with a show "v_getLeaderboard v = Pending"
    using await_sdk_ends [of CallGetLeaderboard "v_getLeaderboard v" w] by simp
qed

lemma signOut_ends:
  "fst (signOut v w) \<noteq> Throw e"
  "fst (signOut v w) = Hang \<Longrightarrow> v_signOut v (href (loc w)) = Pending"
proof -
  obtain r w1 where a:
    "await_sdk (CallSignOut (href (loc w))) (v_signOut v (href (loc w))) w = (r, w1)"
    by (cases "await_sdk (CallSignOut (href (loc w))) (v_signOut v (href (loc w))) w")
  then show "fst (signOut v w) \<noteq> Throw e"
    by (cases r) (simp_all add: signOut_def)
  assume "fst (signOut v w) = Hang"
  with a have "r = Hang"
    by (cases r) (simp_all add: signOut_def split: if_splits)
  with a show "v_signOut v (href (loc w)) = Pending"
    using await_sdk_ends [of "CallSignOut (href (loc w))" "v_signOut v (href (loc w))" w] by simp
qed

lemma handleCallback_exchange_ends:
  "fst (handleCallback_exchange v c w) \<noteq> Throw e"
  "fst (handleCallback_exchange v c w) = Hang \<Longrightarrow>
     v_exchangeCodeForToken v c = Pending \<or> v_getUserInfo v = Pending"
proof -
  obtain r w1 where a:
    "await_sdk (CallExchangeCodeForToken c) (v_exchangeCodeForToken v c) w = (r, w1)"
    by (cases "await_sdk (CallExchangeCodeForToken c) (v_exchangeCodeForToken v c) w")
  obtain r2 w2 where b: "await_sdk CallGetUserInfo (v_getUserInfo v) w1 = (r2, w2)"
    by (cases "await_sdk CallGetUserInfo (v_getUserInfo v) w1")
  from a b show "fst (handleCallback_exchange v c w) \<noteq> Throw e"
    by (cases r; cases r2)
       (simp_all add: handleCallback_exchange_def replaceState_pathname_ends)
  assume "fst (handleCallback_exchange v c w) = Hang"
  with a b have "r = Hang \<or> r2 = Hang"
    by (cases r; cases r2)
       (simp_all add: handleCallback_exchange_def replaceState_pathname_ends)
  with a b show "v_exchangeCodeForToken v c = Pending \<or> v_getUserInfo v = Pending"
    using await_sdk_ends [of "CallExchangeCodeForToken c" "v_exchangeCodeForToken v c" w]
      await_sdk_ends [of CallGetUserInfo "v_getUserInfo v" w1]
    by auto
qed

lemma handleCallback_ends:
  "fst (handleCallback v w) \<noteq> Throw e"
  "fst (handleCallback v w) = Hang \<Longrightarrow>
     v_getUserInfo v = Pending \<or> (\<exists>c. v_exchangeCodeForToken v c = Pending)"
proof -
  show "fst (handleCallback v w) \<noteq> Throw e"
    using handleCallback_exchange_ends(1) [of v _ w e]
    by (simp add: handleCallback_def Let_def split: option.splits)
  assume "fst (handleCallback v w) = Hang"
  then obtain c where "fst (handleCallback_exchange v c w) = Hang"
    by (auto simp add: handleCallback_def Let_def split: option.splits if_splits)
  then show "v_getUserInfo v = Pending \<or> (\<exists>c. v_exchangeCodeForToken v c = Pending)"
    using handleCallback_exchange_ends(2) [of v c w] by auto
qed

text \<open>
  C7. No public operation throws to its caller, in any state of the adapter (ready or
  not, constructed or not) and whatever the vendor does: every vendor call, and the
  call of \<open>history.replaceState\<close>, stands in a \<open>try\<close> whose handler cannot throw,
  and the one handler that can (the outer one of \<open>signIn\<close>) is only ever entered
  with a \<open>TypeError\<close>, on which it returns false. Each operation ends with a plain value unless a vendor call it awaits never
  settles. The accessors \<open>isReady\<close>, \<open>isAuthenticated\<close>, \<open>getUsername\<close> and
  \<open>getUserId\<close> only read fields.
\<close>

theorem operations_never_throw:
  "fst (signIn v w) \<noteq> Throw e \<and> fst (getUserInfo v w) \<noteq> Throw e
   \<and> fst (saveScore v score w) \<noteq> Throw e \<and> fst (getLeaderboard v w) \<noteq> Throw e
   \<and> fst (signOut v w) \<noteq> Throw e \<and> fst (handleCallback v w) \<noteq> Throw e
   \<and> ((\<exists>b. fst (signIn v w) = Normal b)
        \<or> v_getUserInfo v = Pending \<or> v_signInWithFuntico v (origin (loc w) @ ''/'') = Pending)
   \<and> ((\<exists>u. fst (getUserInfo v w) = Normal u) \<or> v_getUserInfo v = Pending)
   \<and> ((\<exists>b. fst (saveScore v score w) = Normal b) \<or> v_saveScore v score = Pending)
   \<and> ((\<exists>xs. fst (getLeaderboard v w) = Normal xs) \<or> v_getLeaderboard v = Pending)
   \<and> ((\<exists>b. fst (signOut v w) = Normal b) \<or> v_signOut v (href (loc w)) = Pending)
   \<and> ((\<exists>b. fst (handleCallback v w) = Normal b)
        \<or> v_getUserInfo v = Pending \<or> (\<exists>c. v_exchangeCodeForToken v c = Pending))"
proof -
  have ends: "(\<exists>x. r = Normal x) \<or> P" if "\<And>x. r \<noteq> Throw x" and "r = Hang \<Longrightarrow> P"
    for r :: "'a completion" and P
    using that by (cases r) auto
  have "(\<exists>b. fst (signIn v w) = Normal b)
        \<or> v_getUserInfo v = Pending \<or> v_signInWithFuntico v (origin (loc w) @ ''/'') = Pending"
    by (rule ends) (rule signIn_ends)+
  moreover have "(\<exists>u. fst (getUserInfo v w) = Normal u) \<or> v_getUserInfo v = Pending"
    by (rule ends) (rule getUserInfo_ends)+
  moreover have "(\<exists>b. fst (saveScore v score w) = Normal b) \<or> v_saveScore v score = Pending"
    by (rule ends) (rule saveScore_ends)+
  moreover have "(\<exists>xs. fst (getLeaderboard v w) = Normal xs) \<or> v_getLeaderboard v = Pending"
    by (rule ends) (rule getLeaderboard_ends)+
  moreover have "(\<exists>b. fst (signOut v w) = Normal b) \<or> v_signOut v (href (loc w)) = Pending"
    by (rule ends) (rule signOut_ends)+
  moreover have "(\<exists>b. fst (handleCallback v w) = Normal b)
        \<or> v_getUserInfo v = Pending \<or> (\<exists>c. v_exchangeCodeForToken v c = Pending)"
    by (rule ends) (rule handleCallback_ends)+
  ultimately show ?thesis
    by (simp add: signIn_ends(1) getUserInfo_ends(1) saveScore_ends(1) getLeaderboard_ends(1)
        signOut_ends(1) handleCallback_ends(1))
qed

subsection \<open>The OAuth callback\<close>

lemma params_error_and_code:
  "URLSearchParams ''?error=&code=abc123'' = [(''error'', []), (''code'', ''abc123'')]"
  by (simp add: URLSearchParams_def form_decode_def hexval_def utf8_first_def)

lemma handleCallback_exchange_object:
  assumes "sdk w = SdkObject config"
    and "v_exchangeCodeForToken v c = Resolves t" and "v_getUserInfo v = Resolves u"
  shows "handleCallback_exchange v c w =
     (case replaceState_pathname
             (w\<lparr>calls := calls w @ [CallExchangeCodeForToken c, CallGetUserInfo], userInfo := u\<rparr>) of
        (Normal r, w3) \<Rightarrow> (Normal True, w3)
      | (Throw e, w3) \<Rightarrow> (Normal False, w3)
      | (Hang, w3) \<Rightarrow> (Hang, w3))"
  using assms
  by (simp add: handleCallback_exchange_def await_sdk_def settle_def)

text \<open>
  C6, as the code has it. \<open>handleCallback\<close> tests its two parameters with \<open>if (x)\<close>,
  the error first. With an \<open>error\<close> parameter whose value is not empty it returns
  false and changes nothing. Otherwise, with a \<open>code\<close> parameter whose value is not
  empty, a vendor handle, a token exchange that succeeds and an identity fetch that
  succeeds, the fetched identity is cached, and then: when the browser accepts the
  rewrite of the address to the page's path, the call returns true and the address has
  lost its query string; when the browser refuses it (the path begins with two
  slashes and names another origin), the call returns false and the address is as it
  was. When neither parameter has a non-empty value the call returns false and changes
  nothing.
\<close>

theorem handleCallback_outcomes:
  assumes "params = URLSearchParams (search (loc w))"
  shows "(truthy_param (params_get params ''error'') \<longrightarrow> handleCallback v w = (Normal False, w))
    \<and> (\<not> truthy_param (params_get params ''error'') \<and> params_get params ''code'' = Some c \<and> c \<noteq> []
        \<and> sdk w = SdkObject config
        \<and> v_exchangeCodeForToken v c = Resolves t \<and> v_getUserInfo v = Resolves u
        \<and> replaceState_accepts (loc w) \<longrightarrow>
          fst (handleCallback v w) = Normal True
          \<and> userInfo (snd (handleCallback v w)) = u
          \<and> search (loc (snd (handleCallback v w))) = []
          \<and> calls (snd (handleCallback v w)) = calls w @ [CallExchangeCodeForToken c, CallGetUserInfo])
    \<and> (\<not> truthy_param (params_get params ''error'') \<and> params_get params ''code'' = Some c \<and> c \<noteq> []
        \<and> sdk w = SdkObject config
        \<and> v_exchangeCodeForToken v c = Resolves t \<and> v_getUserInfo v = Resolves u
        \<and> \<not> replaceState_accepts (loc w) \<longrightarrow>
          handleCallback v w
            = (Normal False,
               w\<lparr>calls := calls w @ [CallExchangeCodeForToken c, CallGetUserInfo], userInfo := u\<rparr>))
    \<and> (\<not> truthy_param (params_get params ''error'') \<and> \<not> truthy_param (params_get params ''code'') \<longrightarrow>
          handleCallback v w = (Normal False, w))"
proof (intro conjI impI)
  assume "truthy_param (params_get params ''error'')"
  with assms show "handleCallback v w = (Normal False, w)"
    by (simp add: handleCallback_def)
next
  assume "\<not> truthy_param (params_get params ''error'') \<and> \<not> truthy_param (params_get params ''code'')"
  with assms show "handleCallback v w = (Normal False, w)"
    by (simp add: handleCallback_def truthy_param_def split: option.splits)
next
  let ?w = "w\<lparr>calls := calls w @ [CallExchangeCodeForToken c, CallGetUserInfo], userInfo := u\<rparr>"
  assume h: "\<not> truthy_param (params_get params ''error'') \<and> params_get params ''code'' = Some c \<and> c \<noteq> []
      \<and> sdk w = SdkObject config
      \<and> v_exchangeCodeForToken v c = Resolves t \<and> v_getUserInfo v = Resolves u
      \<and> \<not> replaceState_accepts (loc w)"
  then have "handleCallback v w = handleCallback_exchange v c w"
    using assms by (simp add: handleCallback_def)
  moreover from h have "replaceState_pathname ?w = (Throw SecurityError, ?w)"
    using replaceState_pathname_refused [of ?w] by simp
  ultimately show "handleCallback v w = (Normal False, ?w)"
    using h handleCallback_exchange_object [of w config v c t u] by simp
next
  let ?w = "w\<lparr>calls := calls w @ [CallExchangeCodeForToken c, CallGetUserInfo], userInfo := u\<rparr>"
  assume h: "\<not> truthy_param (params_get params ''error'') \<and> params_get params ''code'' = Some c \<and> c \<noteq> []
      \<and> sdk w = SdkObject config
      \<and> v_exchangeCodeForToken v c = Resolves t \<and> v_getUserInfo v = Resolves u
      \<and> replaceState_accepts (loc w)"
  then have "handleCallback v w = handleCallback_exchange v c w"
    using assms by (simp add: handleCallback_def)
  moreover obtain w3 where w3: "replaceState_pathname ?w = (Normal JUndefined, w3)"
    using h replaceState_pathname_accepted(1) [of ?w]
    by (cases "replaceState_pathname ?w") simp
  ultimately have r: "handleCallback v w = (Normal True, w3)"
    using h handleCallback_exchange_object [of w config v c t u] by simp
  have after: "userInfo w3 = u" "calls w3 = calls w @ [CallExchangeCodeForToken c, CallGetUserInfo]"
      "search (loc w3) = []"
    using w3 h replaceState_pathname_fields(3,4) [of ?w] replaceState_pathname_accepted(2) [of ?w]
    by simp_all
  show "fst (handleCallback v w) = Normal True" by (simp add: r)
  show "userInfo (snd (handleCallback v w)) = u" by (simp add: r after)
  show "search (loc (snd (handleCallback v w))) = []" by (simp add: r after)
  show "calls (snd (handleCallback v w)) = calls w @ [CallExchangeCodeForToken c, CallGetUserInfo]"
    by (simp add: r after)
qed

theorem handleCallback_outcomes_witness:
  "handleCallback (vendor_up alice) (FunticoManager sdk_loads (page_at ''?error=access_denied''))
     = (Normal False, FunticoManager sdk_loads (page_at ''?error=access_denied''))
   \<and> fst (handleCallback (vendor_up alice) (FunticoManager sdk_loads (page_at ''?code=abc123'')))
       = Normal True
   \<and> userInfo (snd (handleCallback (vendor_up alice) (FunticoManager sdk_loads (page_at ''?code=abc123''))))
       = alice
   \<and> search (loc (snd (handleCallback (vendor_up alice)
         (FunticoManager sdk_loads (page_at ''?code=abc123''))))) = []
   \<and> fst (handleCallback (vendor_up alice) (FunticoManager sdk_loads page_two_slashes)) = Normal False
   \<and> userInfo (snd (handleCallback (vendor_up alice) (FunticoManager sdk_loads page_two_slashes)))
       = alice
   \<and> search (loc (snd (handleCallback (vendor_up alice) (FunticoManager sdk_loads page_two_slashes))))
       = ''?code=abc123''
   \<and> handleCallback (vendor_up alice) fresh = (Normal False, fresh)"
proof -
  let ?denied = "FunticoManager sdk_loads (page_at ''?error=access_denied'')"
  let ?granted = "FunticoManager sdk_loads (page_at ''?code=abc123'')"
  let ?refused = "FunticoManager sdk_loads page_two_slashes"
  let ?config = "\<lparr>authClientId = ''gl-avalanche-knight'', env = ''sandbox'', autoLogin = False\<rparr>"
  let ?token = "JObj [(''access_token'', JStr ''t'')]"
  have a: "truthy_param (params_get (URLSearchParams (search (loc ?denied))) ''error'')"
    by code_simp
  have b: "\<not> truthy_param (params_get (URLSearchParams (search (loc ?granted))) ''error'')
      \<and> params_get (URLSearchParams (search (loc ?granted))) ''code'' = Some ''abc123''
      \<and> ''abc123'' \<noteq> []
      \<and> sdk ?granted = SdkObject ?config
      \<and> v_exchangeCodeForToken (vendor_up alice) ''abc123'' = Resolves ?token
      \<and> v_getUserInfo (vendor_up alice) = Resolves alice
      \<and> replaceState_accepts (loc ?granted)"
    by code_simp
  have c: "\<not> truthy_param (params_get (URLSearchParams (search (loc fresh))) ''error'')
      \<and> \<not> truthy_param (params_get (URLSearchParams (search (loc fresh))) ''code'')"
    by code_simp
  have d: "\<not> truthy_param (params_get (URLSearchParams (search (loc ?refused))) ''error'')
      \<and> params_get (URLSearchParams (search (loc ?refused))) ''code'' = Some ''abc123''
      \<and> ''abc123'' \<noteq> []
      \<and> sdk ?refused = SdkObject ?config
      \<and> v_exchangeCodeForToken (vendor_up alice) ''abc123'' = Resolves ?token
      \<and> v_getUserInfo (vendor_up alice) = Resolves alice
      \<and> \<not> replaceState_accepts (loc ?refused)"
    by code_simp
  have e: "search (loc ?refused) = ''?code=abc123''"
    by code_simp
  show ?thesis
    using a b c d e
      handleCallback_outcomes [OF refl, where w = ?denied and v = "vendor_up alice"]
      handleCallback_outcomes [OF refl, where w = ?granted and v = "vendor_up alice"
        and c = "''abc123''" and config = ?config and t = ?token and u = alice]
      handleCallback_outcomes [OF refl, where w = ?refused and v = "vendor_up alice"
        and c = "''abc123''" and config = ?config and t = ?token and u = alice]
      handleCallback_outcomes [OF refl, where w = fresh and v = "vendor_up alice"]
    by simp
qed

text \<open>
  An \<open>error\<close> parameter alone does not make the callback fail: with the query string
  \<open>?error=&code=abc123\<close> the parameter is there, its value is the empty string,
  \<open>if (error)\<close> takes the other branch, and the call returns true with a new
  identity cached.
\<close>

theorem handleCallback_empty_error_counterexample:
  "params_get (URLSearchParams (search (loc (FunticoManager sdk_loads (page_at ''?error=&code=abc123'')))))
       ''error'' = Some []
   \<and> userInfo (FunticoManager sdk_loads (page_at ''?error=&code=abc123'')) = JNull
   \<and> fst (handleCallback (vendor_up alice) (FunticoManager sdk_loads (page_at ''?error=&code=abc123'')))
       = Normal True
   \<and> userInfo (snd (handleCallback (vendor_up alice)
         (FunticoManager sdk_loads (page_at ''?error=&code=abc123'')))) = alice"
  by code_simp

subsection \<open>The accessors\<close>

lemma cached_is_authenticated: "truthy (userInfo w) \<Longrightarrow> isAuthenticated w"
  by (auto simp add: isAuthenticated_def)

text \<open>
  C9, as the code has it. \<open>getUsername\<close> returns \<open>Guest\<close> when no identity is cached
  (the cached value is \<open>null\<close>, \<open>undefined\<close> or anything else that is not an object),
  and also when the cached identity has no username or a falsy one, the empty string
  among them; it returns the cached username otherwise.
\<close>

theorem getUsername_cases:
  "((\<forall>ps. userInfo w \<noteq> JObj ps) \<longrightarrow> getUsername w = JStr ''Guest'')
   \<and> (userInfo w = JObj ps \<and> map_of ps ''username'' = None \<longrightarrow> getUsername w = JStr ''Guest'')
   \<and> (userInfo w = JObj ps \<and> map_of ps ''username'' = Some u \<and> \<not> truthy u \<longrightarrow>
        getUsername w = JStr ''Guest'')
   \<and> (userInfo w = JObj ps \<and> map_of ps ''username'' = Some u \<and> truthy u \<longrightarrow> getUsername w = u)"
proof -
  have "getUsername w = JStr ''Guest''" if "\<forall>ps. userInfo w \<noteq> JObj ps"
    using that by (cases "userInfo w") (simp_all add: getUsername_def)
  then show ?thesis
    by (simp add: getUsername_def)
qed

theorem getUsername_cases_witness:
  "getUsername fresh = JStr ''Guest''
   \<and> getUsername (fresh\<lparr>userInfo := JUndefined\<rparr>) = JStr ''Guest''
   \<and> getUsername (fresh\<lparr>userInfo := JStr ''alice''\<rparr>) = JStr ''Guest''
   \<and> getUsername (fresh\<lparr>userInfo := JObj [(''user_id'', JNum 7)]\<rparr>) = JStr ''Guest''
   \<and> getUsername (fresh\<lparr>userInfo := nameless\<rparr>) = JStr ''Guest''
   \<and> getUsername signed_in = JStr ''alice''"
proof -
  have a: "\<forall>ps. userInfo fresh \<noteq> JObj ps"
    by (simp add: fresh_value)
  have a': "\<forall>ps. userInfo (fresh\<lparr>userInfo := JUndefined\<rparr>) \<noteq> JObj ps"
    by simp
  have a'': "\<forall>ps. userInfo (fresh\<lparr>userInfo := JStr ''alice''\<rparr>) \<noteq> JObj ps"
    by simp
  have b: "userInfo (fresh\<lparr>userInfo := JObj [(''user_id'', JNum 7)]\<rparr>) = JObj [(''user_id'', JNum 7)]
      \<and> map_of [(''user_id'', JNum 7)] ''username'' = None"
    by simp
  have c: "userInfo (fresh\<lparr>userInfo := nameless\<rparr>) = JObj [(''username'', JStr []), (''user_id'', JNum 7)]
      \<and> map_of [(''username'', JStr []), (''user_id'', JNum 7)] ''username'' = Some (JStr [])
      \<and> \<not> truthy (JStr [])"
    by (simp add: nameless_def)
  have d: "userInfo signed_in = JObj [(''username'', JStr ''alice''), (''user_id'', JNum 7)]
      \<and> map_of [(''username'', JStr ''alice''), (''user_id'', JNum 7)] ''username'' = Some (JStr ''alice'')
      \<and> truthy (JStr ''alice'')"
    by (simp add: signed_in_value alice_def)
  show ?thesis
    using a a' a'' b c d
      getUsername_cases [where w = fresh]
      getUsername_cases [where w = "fresh\<lparr>userInfo := JUndefined\<rparr>"]
      getUsername_cases [where w = "fresh\<lparr>userInfo := JStr ''alice''\<rparr>"]
      getUsername_cases [where w = "fresh\<lparr>userInfo := JObj [(''user_id'', JNum 7)]\<rparr>"
        and ps = "[(''user_id'', JNum 7)]"]
      getUsername_cases [where w = "fresh\<lparr>userInfo := nameless\<rparr>"
        and ps = "[(''username'', JStr []), (''user_id'', JNum 7)]" and u = "JStr []"]
      getUsername_cases [where w = signed_in
        and ps = "[(''username'', JStr ''alice''), (''user_id'', JNum 7)]" and u = "JStr ''alice''"]
    by simp
qed

text \<open>
  After a callback in which the vendor reports an identity whose username is the
  empty string, that identity is cached and \<open>getUsername\<close> answers \<open>Guest\<close>, not the
  cached username.
\<close>

theorem getUsername_empty_counterexample:
  "userInfo (run [Invoke HandleCallback (vendor_up nameless)]
       (FunticoManager sdk_loads (page_at ''?code=abc123''))) = nameless
   \<and> opt_member nameless ''username'' = JStr []
   \<and> getUsername (run [Invoke HandleCallback (vendor_up nameless)]
       (FunticoManager sdk_loads (page_at ''?code=abc123''))) = JStr ''Guest''"
  by code_simp

text \<open>
  \<open>isAuthenticated\<close> and the test \<open>if (this.userInfo)\<close> of \<open>getUserInfo\<close> and \<open>signIn\<close>
  disagree on exactly the falsy values other than \<open>null\<close>.
\<close>

lemma isAuthenticated_disagrees:
  "(isAuthenticated w \<and> \<not> truthy (userInfo w))
     = (userInfo w \<in> {JUndefined, JBool False, JNum 0, JStr []})"
  by (cases "userInfo w") (auto simp add: isAuthenticated_def)

text \<open>
  C8. \<open>isAuthenticated\<close> compares the cached value with \<open>null\<close> only. After a callback
  in which the vendor's \<open>getUserInfo\<close> resolves to \<open>undefined\<close>, no identity is
  cached (\<open>getUsername\<close> answers \<open>Guest\<close>, and the adapter's own \<open>getUserInfo\<close> asks
  the vendor again), and yet \<open>isAuthenticated\<close> is true.
\<close>

theorem isAuthenticated_without_identity:
  "userInfo (run [Invoke HandleCallback (vendor_up JUndefined)]
       (FunticoManager sdk_loads (page_at ''?code=abc123''))) = JUndefined
   \<and> isAuthenticated (run [Invoke HandleCallback (vendor_up JUndefined)]
       (FunticoManager sdk_loads (page_at ''?code=abc123'')))
   \<and> getUsername (run [Invoke HandleCallback (vendor_up JUndefined)]
       (FunticoManager sdk_loads (page_at ''?code=abc123''))) = JStr ''Guest''
   \<and> calls (snd (getUserInfo (vendor_up alice) (run [Invoke HandleCallback (vendor_up JUndefined)]
       (FunticoManager sdk_loads (page_at ''?code=abc123'')))))
       = [CallExchangeCodeForToken ''abc123'', CallGetUserInfo, CallGetUserInfo]"
  by code_simp

subsection \<open>The sign-in fallback\<close>

text \<open>
  Entered with an error whose message contains \<open>redirect_uri\<close>, the outer handler of
  \<open>signIn\<close> caches the demo identity, shows the notice and returns true.
\<close>

lemma signIn_catch_redirect_uri:
  assumes "member_of error ''message'' = Normal (JStr m)" and "str_includes m ''redirect_uri''"
  shows "signIn_catch error w =
     (Normal True, w\<lparr>userInfo := demo_identity, alerts := alerts w @ [demo_notice]\<rparr>)"
proof -
  from assms(2) have "m \<noteq> []"
    by auto
  with assms show ?thesis
    by (simp add: signIn_catch_def)
qed

text \<open>
  It is never entered with one. Whatever \<open>signInWithFuntico\<close> throws is caught by the
  inner handler, which assigns the login address and returns true; nothing else in the
  outer block throws but \<open>Object.keys\<close> on a missing handle, with a \<open>TypeError\<close>. So
  \<open>signIn\<close> shows no notice, in any state and against any vendor.
\<close>

lemma signIn_vendor_failure:
  assumes "sdk w = SdkObject config" and "isInitialized w"
    and "\<not> str_includes (hostname (loc w)) ''funtico.com''"
    and "v_signInWithFuntico v (origin (loc w) @ ''/'') = Rejects e"
  shows "signIn v w =
     (Normal True,
      w\<lparr>navigated := Some (loginUrl (origin (loc w) @ ''/'')),
        calls := calls w @ [CallSignInWithFuntico (origin (loc w) @ ''/'')]\<rparr>)"
  using assms
  by (simp add: signIn_def isReady_def signIn_attempt_def await_sdk_def settle_def Let_def)

lemma signIn_session_alerts:
  "alerts (snd (signIn_session v w)) = alerts w \<and> sdk (snd (signIn_session v w)) = sdk w"
proof (cases "await_sdk CallGetUserInfo (v_getUserInfo v) w")
  case (Pair r w1)
  then have "alerts w1 = alerts w" "sdk w1 = sdk w"
    using await_sdk_fields(6,1) [of CallGetUserInfo "v_getUserInfo v" w] by simp_all
  with Pair show ?thesis
    by (cases r) (simp_all add: signIn_session_def)
qed

lemma signIn_attempt_alerts:
  "alerts (snd (signIn_attempt v w)) = alerts w"
  by (cases "sdk w"; cases "v_signInWithFuntico v (origin (loc w) @ ''/'')")
     (simp_all add: signIn_attempt_def await_sdk_def settle_def Let_def)

lemma signIn_no_notice:
  "alerts (snd (signIn v w)) = alerts w"
proof (cases "isReady w")
  case False
  then show ?thesis by (simp add: signIn_def)
next
  case True
  let ?first = "if str_includes (hostname (loc w)) ''funtico.com'' then signIn_session v w
                else (Normal None, w)"
  obtain r w1 where s: "?first = (r, w1)"
    by (cases ?first)
  then have w1: "alerts w1 = alerts w"
    using signIn_session_alerts [of v w] by (auto split: if_splits)
  obtain r2 w2 where a: "signIn_attempt v w1 = (r2, w2)"
    by (cases "signIn_attempt v w1")
  then have w2: "alerts w2 = alerts w"
    using signIn_attempt_alerts [of v w1] w1 by simp
  have r2: "r2 = Throw x \<Longrightarrow> signIn_catch x w2 = (Normal False, w2)" for x
    using a signIn_attempt_ends(1) [of v w1 x] signIn_catch_TypeError by simp
  from True s a w1 w2 r2 show ?thesis
    by (cases r; cases r2) (auto simp add: signIn_def split: option.splits)
qed

text \<open>
  C2. A ready adapter on a local page, a vendor whose \<open>signInWithFuntico\<close> rejects
  with an error whose message contains \<open>redirect_uri\<close>: \<open>signIn\<close> returns true, the
  page is sent to the hand-built login address, no notice is shown, and the cached
  identity is still \<open>null\<close>, not the demo identity.
\<close>

theorem signIn_redirect_uri_rejected:
  "v_signInWithFuntico (vendor_down redirect_uri_error) ''http://localhost:3000/''
     = Rejects redirect_uri_error
   \<and> call_includes (JStr ''The redirect_uri is not registered'') ''redirect_uri'' = Normal True
   \<and> isReady fresh
   \<and> fst (signIn (vendor_down redirect_uri_error) fresh) = Normal True
   \<and> userInfo (snd (signIn (vendor_down redirect_uri_error) fresh)) = JNull
   \<and> alerts (snd (signIn (vendor_down redirect_uri_error) fresh)) = []
   \<and> navigated (snd (signIn (vendor_down redirect_uri_error) fresh))
       = Some (''https://auth.funtico.com/oauth2/auth?client_id=gl-avalanche-knight''
               @ ''&redirect_uri=http%3A%2F%2Flocalhost%3A3000%2F''
               @ ''&response_type=code&scope=openid+profile+email'')"
  by code_simp

end
